theory Spec2Isabelle
  imports Main
begin

section \<open>Python strings\<close>

text \<open>
  A Python \<^verbatim>\<open>str\<close> is modelled as an Isabelle \<^typ>\<open>string\<close>: a list of characters
  whose code points lie below 256. The string methods the crawler calls are written out
  here; a Python \<^verbatim>\<open>set\<close> that the code only iterates over is a list holding its elements
  in iteration order.
\<close>

definition whitespace :: "char list" where
  "whitespace = [CHR 0x09, CHR 0x0A, CHR 0x0B, CHR 0x0C, CHR 0x0D, CHR 0x1C, CHR 0x1D,
     CHR 0x1E, CHR 0x1F, CHR 0x20, CHR 0x85, CHR 0xA0]"

definition isspace :: "char \<Rightarrow> bool" where
  "isspace c = (c \<in> set whitespace)"

definition ascii_lowercase :: "char list" where
  "ascii_lowercase = ''abcdefghijklmnopqrstuvwxyz''"

definition ascii_uppercase :: "char list" where
  "ascii_uppercase = ''ABCDEFGHIJKLMNOPQRSTUVWXYZ''"

definition digits :: "char list" where
  "digits = ''0123456789''"

definition hexdigits :: "char list" where
  "hexdigits = ''0123456789ABCDEFabcdef''"

definition latin1_uppercase :: "char list" where
  "latin1_uppercase = [CHR 0xC0, CHR 0xC1, CHR 0xC2, CHR 0xC3, CHR 0xC4, CHR 0xC5, CHR 0xC6,
     CHR 0xC7, CHR 0xC8, CHR 0xC9, CHR 0xCA, CHR 0xCB, CHR 0xCC, CHR 0xCD, CHR 0xCE, CHR 0xCF,
     CHR 0xD0, CHR 0xD1, CHR 0xD2, CHR 0xD3, CHR 0xD4, CHR 0xD5, CHR 0xD6, CHR 0xD8, CHR 0xD9,
     CHR 0xDA, CHR 0xDB, CHR 0xDC, CHR 0xDD, CHR 0xDE]"

definition latin1_lowercase :: "char list" where
  "latin1_lowercase = [CHR 0xE0, CHR 0xE1, CHR 0xE2, CHR 0xE3, CHR 0xE4, CHR 0xE5, CHR 0xE6,
     CHR 0xE7, CHR 0xE8, CHR 0xE9, CHR 0xEA, CHR 0xEB, CHR 0xEC, CHR 0xED, CHR 0xEE, CHR 0xEF,
     CHR 0xF0, CHR 0xF1, CHR 0xF2, CHR 0xF3, CHR 0xF4, CHR 0xF5, CHR 0xF6, CHR 0xF8, CHR 0xF9,
     CHR 0xFA, CHR 0xFB, CHR 0xFC, CHR 0xFD, CHR 0xFE]"

definition lower_char :: "char \<Rightarrow> char" where
  "lower_char c =
     (case map_of (zip (ascii_uppercase @ latin1_uppercase) (ascii_lowercase @ latin1_lowercase)) c of
        None \<Rightarrow> c
      | Some l \<Rightarrow> l)"

text \<open>\<^verbatim>\<open>s.lower()\<close>\<close>

definition py_lower :: "string \<Rightarrow> string" where
  "py_lower s = map lower_char s"

text \<open>\<^verbatim>\<open>s.startswith(p)\<close>, \<^verbatim>\<open>s.endswith(p)\<close> and \<^verbatim>\<open>sub in s\<close>\<close>

definition py_startswith :: "string \<Rightarrow> string \<Rightarrow> bool" where
  "py_startswith s p = (take (length p) s = p)"

definition py_endswith :: "string \<Rightarrow> string \<Rightarrow> bool" where
  "py_endswith s p = (length p \<le> length s \<and> drop (length s - length p) s = p)"

fun py_in :: "string \<Rightarrow> string \<Rightarrow> bool" where
  "py_in sub [] = (sub = [])"
| "py_in sub (c # cs) = (py_startswith (c # cs) sub \<or> py_in sub cs)"

text \<open>\<^verbatim>\<open>s.strip()\<close>, \<^verbatim>\<open>s.lstrip(chars)\<close>, \<^verbatim>\<open>s.rstrip(chars)\<close> and \<^verbatim>\<open>s.strip(chars)\<close>\<close>

definition py_lstrip :: "char list \<Rightarrow> string \<Rightarrow> string" where
  "py_lstrip chars s = dropWhile (\<lambda>c. c \<in> set chars) s"

definition py_rstrip :: "char list \<Rightarrow> string \<Rightarrow> string" where
  "py_rstrip chars s = rev (dropWhile (\<lambda>c. c \<in> set chars) (rev s))"

definition py_strip_chars :: "char list \<Rightarrow> string \<Rightarrow> string" where
  "py_strip_chars chars s = py_rstrip chars (py_lstrip chars s)"

definition py_strip :: "string \<Rightarrow> string" where
  "py_strip s = py_strip_chars whitespace s"

text \<open>\<^verbatim>\<open>s.find(c, start)\<close> for a one-character \<^verbatim>\<open>c\<close>: \<open>None\<close> stands for \<^verbatim>\<open>-1\<close>.\<close>

fun find_index_from :: "char \<Rightarrow> string \<Rightarrow> nat \<Rightarrow> nat option" where
  "find_index_from c [] i = None"
| "find_index_from c (x # xs) i = (if x = c then Some i else find_index_from c xs (Suc i))"

definition py_find :: "string \<Rightarrow> char \<Rightarrow> nat \<Rightarrow> nat option" where
  "py_find s c start = find_index_from c (drop start s) start"

text \<open>\<^verbatim>\<open>s.rfind(c)\<close>\<close>

definition py_rfind :: "string \<Rightarrow> char \<Rightarrow> nat option" where
  "py_rfind s c =
     (case find_index_from c (rev s) 0 of None \<Rightarrow> None | Some j \<Rightarrow> Some (length s - 1 - j))"

text \<open>\<^verbatim>\<open>s.split(c)\<close> for a one-character separator, and \<^verbatim>\<open>c.join(parts)\<close>\<close>

fun py_split_on :: "char \<Rightarrow> string \<Rightarrow> string list" where
  "py_split_on c [] = [[]]"
| "py_split_on c (x # xs) =
     (case py_split_on c xs of
        [] \<Rightarrow> [[x]]
      | p # ps \<Rightarrow> if x = c then [] # p # ps else (x # p) # ps)"

fun py_join :: "char \<Rightarrow> string list \<Rightarrow> string" where
  "py_join c [] = []"
| "py_join c [p] = p"
| "py_join c (p # q # ps) = p @ c # py_join c (q # ps)"

text \<open>\<^verbatim>\<open>s.split(c, 1)\<close> and \<^verbatim>\<open>s.partition(c)\<close> when \<^verbatim>\<open>c in s\<close>: the text before the first
  \<^verbatim>\<open>c\<close> and the text after it. Without a \<^verbatim>\<open>c\<close> the second part is empty, as for
  \<^verbatim>\<open>partition\<close>.\<close>

definition py_partition :: "char \<Rightarrow> string \<Rightarrow> string \<times> string" where
  "py_partition c s = (takeWhile (\<lambda>x. x \<noteq> c) s, drop 1 (dropWhile (\<lambda>x. x \<noteq> c) s))"

text \<open>\<^verbatim>\<open>s.replace(old, new)\<close>: every occurrence, left to right, without overlap.\<close>

function py_replace :: "string \<Rightarrow> string \<Rightarrow> string \<Rightarrow> string" where
  "py_replace [] old new = (if old = [] then new else [])"
| "py_replace (c # cs) old new =
     (if old = [] then new @ c # py_replace cs old new
      else if py_startswith (c # cs) old then new @ py_replace (drop (length old) (c # cs)) old new
      else c # py_replace cs old new)"
  by pat_completeness auto
termination
  by (relation "measure (\<lambda>(s, old, new). length s)") (auto simp: neq_Nil_conv)

text \<open>\<^verbatim>\<open>s.split()\<close>: the maximal runs of characters that are not whitespace.\<close>

function py_split :: "string \<Rightarrow> string list" where
  "py_split s =
     (case dropWhile isspace s of
        [] \<Rightarrow> []
      | c # cs \<Rightarrow> (c # takeWhile (\<lambda>x. \<not> isspace x) cs) # py_split (dropWhile (\<lambda>x. \<not> isspace x) cs))"
  by pat_completeness auto
termination
proof (relation "measure length", goal_cases)
  case 1
  show ?case by simp
next
  case (2 s c cs)
  have "length (dropWhile (\<lambda>x. \<not> isspace x) cs) \<le> length cs"
    by (rule length_dropWhile_le)
  moreover have "length (dropWhile isspace s) \<le> length s"
    by (rule length_dropWhile_le)
  ultimately show ?case using 2 by simp
qed

text \<open>\<^verbatim>\<open>re.sub(r'\s+', ' ', s)\<close>: each maximal run of whitespace becomes one space.\<close>

function re_sub_spaces :: "string \<Rightarrow> string" where
  "re_sub_spaces [] = []"
| "re_sub_spaces (c # cs) =
     (if isspace c then CHR '' '' # re_sub_spaces (dropWhile isspace cs)
      else c # re_sub_spaces cs)"
  by pat_completeness auto
termination
  by (relation "measure length") (auto simp: le_imp_less_Suc length_dropWhile_le)

text \<open>\<^verbatim>\<open>os.path.basename(p)\<close>: what follows the last slash.\<close>

definition basename :: "string \<Rightarrow> string" where
  "basename p = (case py_rfind p CHR ''/'' of None \<Rightarrow> p | Some i \<Rightarrow> drop (i + 1) p)"

declare py_split.simps [simp del]

section \<open>The standard library: \<^verbatim>\<open>ipaddress\<close> and \<^verbatim>\<open>urllib.parse\<close>\<close>

text \<open>
  The crawler parses every URL with \<^verbatim>\<open>urlparse\<close> and reassembles it with \<^verbatim>\<open>urlunparse\<close>.
  Both are modelled after CPython 3.11. An exception is a value of \<open>py_exception\<close>, and a
  function that may raise returns \<open>py_exception + 'a\<close>.
\<close>

datatype py_exception =
    ValueError
  | IndexError
  | RequestException string
  | Exception string

text \<open>\<^verbatim>\<open>str(e)\<close>; the messages of \<^verbatim>\<open>ValueError\<close> and \<^verbatim>\<open>IndexError\<close> are not modelled.\<close>

fun str_of_exception :: "py_exception \<Rightarrow> string" where
  "str_of_exception ValueError = []"
| "str_of_exception IndexError = []"
| "str_of_exception (RequestException m) = m"
| "str_of_exception (Exception m) = m"

subsection \<open>Bracketed hosts\<close>

text \<open>\<^verbatim>\<open>int(s, 10)\<close> for a string of decimal digits.\<close>

definition digit_value :: "char \<Rightarrow> nat" where
  "digit_value c = (case find_index_from c digits 0 of None \<Rightarrow> 0 | Some i \<Rightarrow> i)"

definition int_of_digits :: "string \<Rightarrow> nat" where
  "int_of_digits s = fold (\<lambda>c n. 10 * n + digit_value c) s 0"

text \<open>\<^verbatim>\<open>IPv4Address._parse_octet\<close> succeeds.\<close>

definition parse_octet_ok :: "string \<Rightarrow> bool" where
  "parse_octet_ok octet_str =
     (octet_str \<noteq> [] \<and> (\<forall>c \<in> set octet_str. c \<in> set digits) \<and> length octet_str \<le> 3
      \<and> (octet_str = ''0'' \<or> hd octet_str \<noteq> CHR ''0'')
      \<and> int_of_digits octet_str \<le> 255)"

text \<open>\<^verbatim>\<open>IPv4Address(s)\<close> succeeds.\<close>

definition ipv4_ok :: "string \<Rightarrow> bool" where
  "ipv4_ok s =
     (CHR ''/'' \<notin> set s \<and> s \<noteq> [] \<and>
      (let octets = py_split_on CHR ''.'' s
       in length octets = 4 \<and> (\<forall>octet \<in> set octets. parse_octet_ok octet)))"

text \<open>\<^verbatim>\<open>IPv6Address._parse_hextet\<close> succeeds: \<^verbatim>\<open>int('', 16)\<close> raises.\<close>

definition parse_hextet_ok :: "string \<Rightarrow> bool" where
  "parse_hextet_ok hextet_str =
     ((\<forall>c \<in> set hextet_str. c \<in> set hexdigits) \<and> length hextet_str \<le> 4 \<and> hextet_str \<noteq> [])"

text \<open>\<^verbatim>\<open>IPv6Address._ip_int_from_string\<close> succeeds. An IPv4 suffix is replaced by its two
  hextets, which are always well formed: the model puts \<open>''0''\<close> for each.\<close>

definition ipv6_int_ok :: "string \<Rightarrow> bool" where
  "ipv6_int_ok ip_str =
     (if ip_str = [] then False
      else let parts = py_split_on CHR '':'' ip_str in
        if length parts < 3 then False
        else if CHR ''.'' \<in> set (last parts) \<and> \<not> ipv4_ok (last parts) then False
        else let parts = (if CHR ''.'' \<in> set (last parts) then butlast parts @ [''0'', ''0'']
                          else parts);
                 n = length parts in
          if n > 9 then False
          else let skips = filter (\<lambda>i. parts ! i = []) [1 ..< n - 1] in
            if length skips > 1 then False
            else (case skips of
              skip_index # _ \<Rightarrow>
                (let parts_hi = (if hd parts = [] then skip_index - 1 else skip_index);
                     parts_lo = (if last parts = [] then n - skip_index - 1 - 1
                                 else n - skip_index - 1) in
                 if hd parts = [] \<and> parts_hi \<noteq> 0 then False
                 else if last parts = [] \<and> parts_lo \<noteq> 0 then False
                 else if parts_hi + parts_lo > 7 then False
                 else (\<forall>p \<in> set (take parts_hi parts). parse_hextet_ok p) \<and>
                      (\<forall>p \<in> set (drop (n - parts_lo) parts). parse_hextet_ok p))
            | [] \<Rightarrow>
                if n \<noteq> 8 then False
                else if hd parts = [] then False
                else if last parts = [] then False
                else (\<forall>p \<in> set parts. parse_hextet_ok p)))"

text \<open>\<^verbatim>\<open>IPv6Address(s)\<close> succeeds: no slash, and a scope id after \<^verbatim>\<open>%\<close> is neither empty
  nor holds a second \<^verbatim>\<open>%\<close>.\<close>

definition ipv6_ok :: "string \<Rightarrow> bool" where
  "ipv6_ok s =
     (if CHR ''/'' \<in> set s then False
      else if CHR ''%'' \<notin> set s then ipv6_int_ok s
      else let (addr, scope_id) = py_partition CHR ''%'' s in
        if scope_id = [] \<or> CHR ''%'' \<in> set scope_id then False else ipv6_int_ok addr)"

text \<open>\<^verbatim>\<open>_check_bracketed_host\<close> returns instead of raising \<^verbatim>\<open>ValueError\<close>. An IPvFuture host
  matches \<^verbatim>\<open>\Av[a-fA-F0-9]+\..+\Z\<close>; any other host has to parse as an IPv6 address and not
  as an IPv4 address.\<close>

definition check_bracketed_host :: "string \<Rightarrow> bool" where
  "check_bracketed_host hostname =
     (if py_startswith hostname ''v'' then
        (let rest = drop 1 hostname;
             hex = takeWhile (\<lambda>c. c \<in> set hexdigits) rest;
             tail = dropWhile (\<lambda>c. c \<in> set hexdigits) rest
         in hex \<noteq> [] \<and> py_startswith tail ''.'' \<and> drop 1 tail \<noteq> []
            \<and> CHR 0x0A \<notin> set (drop 1 tail))
      else \<not> ipv4_ok hostname \<and> ipv6_ok hostname)"

subsection \<open>\<^verbatim>\<open>urlsplit\<close>, \<^verbatim>\<open>urlparse\<close>, \<^verbatim>\<open>urlunparse\<close>\<close>

definition uses_relative :: "string list" where
  "uses_relative = ['''', ''ftp'', ''http'', ''gopher'', ''nntp'', ''imap'', ''wais'', ''file'',
     ''https'', ''shttp'', ''mms'', ''prospero'', ''rtsp'', ''rtsps'', ''rtspu'', ''sftp'',
     ''svn'', ''svn+ssh'', ''ws'', ''wss'']"

definition uses_netloc :: "string list" where
  "uses_netloc = ['''', ''ftp'', ''http'', ''gopher'', ''nntp'', ''telnet'', ''imap'', ''wais'',
     ''file'', ''mms'', ''https'', ''shttp'', ''snews'', ''prospero'', ''rtsp'', ''rtsps'',
     ''rtspu'', ''rsync'', ''svn'', ''svn+ssh'', ''sftp'', ''nfs'', ''git'', ''git+ssh'', ''ws'',
     ''wss'']"

definition uses_params :: "string list" where
  "uses_params = ['''', ''ftp'', ''hdl'', ''prospero'', ''http'', ''imap'', ''https'', ''shttp'',
     ''rtsp'', ''rtsps'', ''rtspu'', ''sip'', ''sips'', ''mms'', ''sftp'', ''tel'']"

definition scheme_chars :: "char list" where
  "scheme_chars = ascii_lowercase @ ascii_uppercase @ digits @ ''+-.''"

text \<open>The characters from \<^verbatim>\<open>\x00\<close> to the space.\<close>

definition WHATWG_C0_CONTROL_OR_SPACE :: "char list" where
  "WHATWG_C0_CONTROL_OR_SPACE = [CHR 0x00, CHR 0x01, CHR 0x02, CHR 0x03, CHR 0x04, CHR 0x05,
     CHR 0x06, CHR 0x07, CHR 0x08, CHR 0x09, CHR 0x0A, CHR 0x0B, CHR 0x0C, CHR 0x0D, CHR 0x0E,
     CHR 0x0F, CHR 0x10, CHR 0x11, CHR 0x12, CHR 0x13, CHR 0x14, CHR 0x15, CHR 0x16, CHR 0x17,
     CHR 0x18, CHR 0x19, CHR 0x1A, CHR 0x1B, CHR 0x1C, CHR 0x1D, CHR 0x1E, CHR 0x1F, CHR 0x20]"

definition UNSAFE_URL_BYTES_TO_REMOVE :: "char list" where
  "UNSAFE_URL_BYTES_TO_REMOVE = [CHR 0x09, CHR 0x0D, CHR 0x0A]"

definition remove_unsafe :: "string \<Rightarrow> string" where
  "remove_unsafe s = fold (\<lambda>b u. py_replace u [b] []) UNSAFE_URL_BYTES_TO_REMOVE s"

text \<open>\<^verbatim>\<open>_splitnetloc(url, start)\<close>\<close>

definition splitnetloc :: "string \<Rightarrow> nat \<Rightarrow> string \<times> string" where
  "splitnetloc url start =
     (let delim = fold (\<lambda>c delim. case py_find url c start of
                                      None \<Rightarrow> delim
                                    | Some wdelim \<Rightarrow> min delim wdelim) ''/?#'' (length url)
      in (drop start (take delim url), drop delim url))"

record SplitResult =
  s_scheme :: string
  s_netloc :: string
  s_path :: string
  s_query :: string
  s_fragment :: string

text \<open>\<^verbatim>\<open>urlsplit(url, scheme)\<close>, fragments allowed. \<^verbatim>\<open>_checknetloc\<close> raises on no string of
  this model: it looks for characters whose NFKC form holds one of \<^verbatim>\<open>/?#@:\<close>, and no code
  point below 256 has such a form.\<close>

definition urlsplit :: "string \<Rightarrow> string \<Rightarrow> py_exception + SplitResult" where
  "urlsplit url0 scheme0 =
     (let url = remove_unsafe (py_lstrip WHATWG_C0_CONTROL_OR_SPACE url0);
          scheme = remove_unsafe (py_strip_chars WHATWG_C0_CONTROL_OR_SPACE scheme0);
          (scheme, url) =
            (case py_find url CHR '':'' 0 of
               None \<Rightarrow> (scheme, url)
             | Some i \<Rightarrow>
                 if i > 0 \<and> hd url \<in> set (ascii_lowercase @ ascii_uppercase)
                    \<and> (\<forall>c \<in> set (take i url). c \<in> set scheme_chars)
                 then (py_lower (take i url), drop (i + 1) url)
                 else (scheme, url));
          (netloc, url) = (if take 2 url = ''//'' then splitnetloc url 2 else ([], url))
      in if (CHR ''['' \<in> set netloc \<and> CHR '']'' \<notin> set netloc)
            \<or> (CHR '']'' \<in> set netloc \<and> CHR ''['' \<notin> set netloc) then Inl ValueError
         else if CHR ''['' \<in> set netloc \<and> CHR '']'' \<in> set netloc
                 \<and> \<not> check_bracketed_host
                       (fst (py_partition CHR '']'' (snd (py_partition CHR ''['' netloc))))
         then Inl ValueError
         else
           let (url, fragment) =
                 (if CHR ''#'' \<in> set url then py_partition CHR ''#'' url else (url, []));
               (url, query) =
                 (if CHR ''?'' \<in> set url then py_partition CHR ''?'' url else (url, []))
           in Inr \<lparr>s_scheme = scheme, s_netloc = netloc, s_path = url, s_query = query,
                   s_fragment = fragment\<rparr>)"

text \<open>\<^verbatim>\<open>_splitparams(url)\<close>; \<^verbatim>\<open>url[:-1]\<close> drops the last character.\<close>

definition splitparams :: "string \<Rightarrow> string \<times> string" where
  "splitparams url =
     (if CHR ''/'' \<in> set url then
        (case py_find url CHR '';'' (case py_rfind url CHR ''/'' of None \<Rightarrow> 0 | Some j \<Rightarrow> j) of
           None \<Rightarrow> (url, [])
         | Some i \<Rightarrow> (take i url, drop (i + 1) url))
      else
        (case py_find url CHR '';'' 0 of
           None \<Rightarrow> (butlast url, url)
         | Some i \<Rightarrow> (take i url, drop (i + 1) url)))"

record ParseResult =
  scheme :: string
  netloc :: string
  path :: string
  params :: string
  query :: string
  fragment :: string

text \<open>\<^verbatim>\<open>urlparse(url, scheme)\<close>\<close>

definition urlparse_scheme :: "string \<Rightarrow> string \<Rightarrow> py_exception + ParseResult" where
  "urlparse_scheme url scheme0 =
     (case urlsplit url scheme0 of
        Inl e \<Rightarrow> Inl e
      | Inr sr \<Rightarrow>
          let (url, params) =
                (if s_scheme sr \<in> set uses_params \<and> CHR '';'' \<in> set (s_path sr)
                 then splitparams (s_path sr) else (s_path sr, []))
          in Inr \<lparr>scheme = s_scheme sr, netloc = s_netloc sr, path = url, params = params,
                  query = s_query sr, fragment = s_fragment sr\<rparr>)"

text \<open>\<^verbatim>\<open>urlparse(url)\<close>\<close>

definition urlparse :: "string \<Rightarrow> py_exception + ParseResult" where
  "urlparse url = urlparse_scheme url []"

text \<open>\<^verbatim>\<open>urlunsplit((scheme, netloc, url, query, fragment))\<close>\<close>

definition urlunsplit :: "string \<Rightarrow> string \<Rightarrow> string \<Rightarrow> string \<Rightarrow> string \<Rightarrow> string" where
  "urlunsplit scheme0 netloc0 url0 query0 fragment0 =
     (let url = (if netloc0 \<noteq> [] \<or> (scheme0 \<noteq> [] \<and> scheme0 \<in> set uses_netloc)
                    \<or> take 2 url0 = ''//''
                 then ''//'' @ netloc0
                      @ (if url0 \<noteq> [] \<and> take 1 url0 \<noteq> ''/'' then ''/'' @ url0 else url0)
                 else url0);
          url = (if scheme0 \<noteq> [] then scheme0 @ '':'' @ url else url);
          url = (if query0 \<noteq> [] then url @ ''?'' @ query0 else url);
          url = (if fragment0 \<noteq> [] then url @ ''#'' @ fragment0 else url)
      in url)"

text \<open>\<^verbatim>\<open>urlunparse((scheme, netloc, url, params, query, fragment))\<close>\<close>

definition urlunparse :: "string \<Rightarrow> string \<Rightarrow> string \<Rightarrow> string \<Rightarrow> string \<Rightarrow> string \<Rightarrow> string" where
  "urlunparse scheme0 netloc0 url0 params0 query0 fragment0 =
     urlunsplit scheme0 netloc0 (if params0 \<noteq> [] then url0 @ '';'' @ params0 else url0)
       query0 fragment0"

text \<open>The loop of \<^verbatim>\<open>urljoin\<close> over the path segments: \<^verbatim>\<open>..\<close> pops a segment when there is
  one, \<^verbatim>\<open>.\<close> is skipped.\<close>

fun resolve_segments :: "string list \<Rightarrow> string list \<Rightarrow> string list" where
  "resolve_segments resolved_path [] = resolved_path"
| "resolve_segments resolved_path (seg # segments) =
     (if seg = ''..'' then resolve_segments (butlast resolved_path) segments
      else if seg = ''.'' then resolve_segments resolved_path segments
      else resolve_segments (resolved_path @ [seg]) segments)"

text \<open>\<^verbatim>\<open>urljoin(base, url)\<close>\<close>

definition urljoin :: "string \<Rightarrow> string \<Rightarrow> py_exception + string" where
  "urljoin base url =
     (if base = [] then Inr url
      else if url = [] then Inr base
      else case urlparse_scheme base [] of
        Inl e \<Rightarrow> Inl e
      | Inr b \<Rightarrow>
         (case urlparse_scheme url (scheme b) of
            Inl e \<Rightarrow> Inl e
          | Inr u \<Rightarrow>
              if scheme u \<noteq> scheme b \<or> scheme u \<notin> set uses_relative then Inr url
              else if scheme u \<in> set uses_netloc \<and> netloc u \<noteq> [] then
                Inr (urlunparse (scheme u) (netloc u) (path u) (params u) (query u) (fragment u))
              else
                let netloc' = (if scheme u \<in> set uses_netloc then netloc b else netloc u) in
                if path u = [] \<and> params u = [] then
                  Inr (urlunparse (scheme u) netloc' (path b) (params b)
                         (if query u = [] then query b else query u) (fragment u))
                else
                  let base_parts = py_split_on CHR ''/'' (path b);
                      base_parts = (if last base_parts \<noteq> [] then butlast base_parts
                                    else base_parts);
                      segments =
                        (if take 1 (path u) = ''/'' then py_split_on CHR ''/'' (path u)
                         else let segs = base_parts @ py_split_on CHR ''/'' (path u)
                              in take 1 segs
                                 @ filter (\<lambda>seg. seg \<noteq> []) (butlast (drop 1 segs))
                                 @ (if length segs > 1 then [last segs] else []));
                      resolved_path = resolve_segments [] segments;
                      resolved_path = (if last segments \<in> {''.'', ''..''}
                                       then resolved_path @ [[]] else resolved_path);
                      joined = py_join CHR ''/'' resolved_path
                  in Inr (urlunparse (scheme u) netloc' (if joined = [] then ''/'' else joined)
                            (params u) (query u) (fragment u))))"

section \<open>\<^verbatim>\<open>utils.py\<close>\<close>

text \<open>\<^verbatim>\<open>normalize_url(url, base_url=None)\<close>: \<open>None\<close> is Python's \<^verbatim>\<open>None\<close>, returned when the
  scheme or the host is refused and when \<^verbatim>\<open>urljoin\<close> or \<^verbatim>\<open>urlparse\<close> raises.\<close>

definition normalize_url :: "string \<Rightarrow> string option \<Rightarrow> string option" where
  "normalize_url url0 base_url =
     (case (case base_url of
              None \<Rightarrow> Inr url0
            | Some base \<Rightarrow>
                if base \<noteq> [] \<and> \<not> (py_startswith url0 ''http://'' \<or> py_startswith url0 ''https://'')
                then urljoin base url0 else Inr url0) of
        Inl e \<Rightarrow> None
      | Inr url \<Rightarrow>
         (case urlparse (py_strip url) of
            Inl e \<Rightarrow> None
          | Inr parsed \<Rightarrow>
              if scheme parsed \<notin> {''http'', ''https''} then None
              else if netloc parsed = [] then None
              else
                let scheme = py_lower (scheme parsed);
                    netloc = py_lower (netloc parsed);
                    path = path parsed;
                    query = query parsed;
                    netloc = (if py_in '':80'' netloc \<and> scheme = ''http''
                              then py_replace netloc '':80'' []
                              else if py_in '':443'' netloc \<and> scheme = ''https''
                              then py_replace netloc '':443'' []
                              else netloc);
                    path = (if py_endswith path ''/'' \<and> length path > 1 then py_rstrip ''/'' path
                            else if path = [] then ''/''
                            else path);
                    fragment = []
                in Some (urlunparse scheme netloc path [] query fragment)))"

text \<open>\<^verbatim>\<open>get_domain_from_url(url)\<close>\<close>

definition get_domain_from_url :: "string \<Rightarrow> string option" where
  "get_domain_from_url url =
     (case urlparse url of Inl e \<Rightarrow> None | Inr parsed \<Rightarrow> Some (py_lower (netloc parsed)))"

text \<open>\<^verbatim>\<open>clean_text(text, max_length)\<close>\<close>

definition clean_text :: "string \<Rightarrow> nat \<Rightarrow> string" where
  "clean_text text max_length =
     (if text = [] then []
      else let cleaned = re_sub_spaces (py_strip text)
           in if length cleaned > max_length then take max_length cleaned @ ''...''
              else cleaned)"

text \<open>\<^verbatim>\<open>validate_seed_urls(urls)\<close>\<close>

fun validate_seed_urls :: "string list \<Rightarrow> string list" where
  "validate_seed_urls [] = []"
| "validate_seed_urls (url # urls) =
     (case normalize_url (py_strip url) None of
        None \<Rightarrow> validate_seed_urls urls
      | Some normalized \<Rightarrow>
          if normalized \<noteq> [] then normalized # validate_seed_urls urls
          else validate_seed_urls urls)"

section \<open>\<^verbatim>\<open>config.py\<close>\<close>

text \<open>The dataclass \<^verbatim>\<open>CrawlerConfig\<close>. The delay between requests is a float and only feeds
  \<^verbatim>\<open>time.sleep\<close>; it is left out. The three sets are lists of their elements.\<close>

record CrawlerConfig =
  urls_file :: string
  database_path :: string
  max_depth :: int
  request_timeout :: int
  max_urls_per_domain :: int
  user_agent :: string
  verify_ssl :: bool
  max_redirects :: int
  respect_robots_txt :: bool
  robots_cache_duration :: int
  allowed_extensions :: "string list"
  blocked_extensions :: "string list"
  allowed_protocols :: "string list"

text \<open>\<^verbatim>\<open>CrawlerConfig()\<close>: the field defaults and those of \<^verbatim>\<open>__post_init__\<close>.\<close>

definition default_config :: CrawlerConfig where
  "default_config =
     \<lparr>urls_file = ''urls.txt'',
      database_path = ''crawler.db'',
      max_depth = 2,
      request_timeout = 10,
      max_urls_per_domain = 50,
      user_agent = ''Mozilla/5.0 (compatible; ParallelCrawler/1.0)'',
      verify_ssl = False,
      max_redirects = 5,
      respect_robots_txt = True,
      robots_cache_duration = 3600,
      allowed_extensions = [''.html'', ''.htm'', ''.php'', ''.asp'', ''.aspx'', ''.jsp'', ''.py'',
        ''.rb'', ''.pl'', ''''],
      blocked_extensions = [''.pdf'', ''.doc'', ''.docx'', ''.xls'', ''.xlsx'', ''.ppt'', ''.pptx'',
        ''.zip'', ''.rar'', ''.7z'', ''.tar'', ''.gz'', ''.jpg'', ''.jpeg'', ''.png'', ''.gif'',
        ''.bmp'', ''.svg'', ''.ico'', ''.mp3'', ''.mp4'', ''.wav'', ''.avi'', ''.mov'', ''.wmv'',
        ''.exe'', ''.msi'', ''.deb'', ''.rpm'', ''.dmg''],
      allowed_protocols = [''http'', ''https'']\<rparr>"

text \<open>\<^verbatim>\<open>CrawlerConfig.is_url_allowed(url)\<close>: the loop over the blocked extensions returns
  \<^verbatim>\<open>False\<close> at the first one the path ends with; an exception of \<^verbatim>\<open>urlparse\<close> gives
  \<^verbatim>\<open>False\<close>.\<close>

definition is_url_allowed :: "CrawlerConfig \<Rightarrow> string \<Rightarrow> bool" where
  "is_url_allowed config url =
     (case urlparse (py_lower url) of
        Inl e \<Rightarrow> False
      | Inr parsed \<Rightarrow>
          if scheme parsed \<notin> set (allowed_protocols config) then False
          else let path = py_lower (path parsed) in
            if list_ex (\<lambda>ext. py_endswith path ext) (blocked_extensions config) then False
            else if allowed_extensions config \<noteq> []
                    \<and> \<not> list_ex (\<lambda>ext. py_endswith path ext) (allowed_extensions config)
                    \<and> CHR ''.'' \<in> set (basename path) then False
            else True)"

text \<open>\<^verbatim>\<open>extract_links_from_html(html_content, base_url)\<close>. Matching the two regular
  expressions against the page is not modelled: \<open>matches\<close> holds the \<^verbatim>\<open>href\<close> values that
  \<^verbatim>\<open>re.findall\<close> returns for them, in order. The result is a set, so a link found twice
  is kept once.\<close>

definition skip_prefixes :: "string list" where
  "skip_prefixes = [''javascript:'', ''mailto:'', ''tel:'', ''ftp:'', ''file:'', ''#'', ''data:'',
     ''blob:'']"

fun add_links :: "string list \<Rightarrow> string \<Rightarrow> string list \<Rightarrow> string list" where
  "add_links [] base_url links = links"
| "add_links (match # matches) base_url links =
     (if list_ex (\<lambda>skip. py_startswith (py_lower match) skip) skip_prefixes
      then add_links matches base_url links
      else case normalize_url match (Some base_url) of
        None \<Rightarrow> add_links matches base_url links
      | Some normalized \<Rightarrow>
          if normalized \<noteq> [] \<and> normalized \<notin> set links
          then add_links matches base_url (links @ [normalized])
          else add_links matches base_url links)"

definition extract_links_from_html :: "string list \<Rightarrow> string \<Rightarrow> string list" where
  "extract_links_from_html matches base_url = add_links matches base_url []"

section \<open>\<^verbatim>\<open>crawler_core.py\<close>\<close>

text \<open>
  The result dictionary of \<^verbatim>\<open>crawl_url\<close>. Its keys \<^verbatim>\<open>url\<close> and \<^verbatim>\<open>depth\<close> are the fields
  \<open>res_url\<close> and \<open>res_depth\<close>; \<^verbatim>\<open>response_time\<close> and \<^verbatim>\<open>timestamp\<close> are clock readings and are
  left out, as is the sleep of \<^verbatim>\<open>_enforce_rate_limit\<close>.
\<close>

record CrawlResult =
  res_url :: string
  title :: string
  content_length :: nat
  status :: string
  res_depth :: int
  domain :: "string option"
  error_message :: "string option"
  links :: "string list"

text \<open>A parsed robots policy is its \<^verbatim>\<open>can_fetch(useragent, url)\<close>. The cache maps an origin
  to a policy, or to \<^verbatim>\<open>None\<close> (here \<open>Some None\<close>) when the file could not be read.\<close>

type_synonym RobotFileParser = "string \<Rightarrow> string \<Rightarrow> bool"

type_synonym robots_cache = "string \<rightharpoonup> RobotFileParser option"

text \<open>What \<^verbatim>\<open>requests\<close> and \<^verbatim>\<open>BeautifulSoup\<close> hand back for one response: the status code and
  the message of the \<^verbatim>\<open>HTTPError\<close> that \<^verbatim>\<open>raise_for_status\<close> raises for it, the
  \<^verbatim>\<open>content-type\<close> header, the body, the text of the first \<^verbatim>\<open>title\<close> tag that the parser
  finds (or the exception it raises), and the \<^verbatim>\<open>href\<close> values matched in \<^verbatim>\<open>response.text\<close>
  (or the exception of decoding it).\<close>

record Response =
  status_code :: int
  http_error :: string
  content_type :: "string option"
  content :: string
  soup_title :: "py_exception + string option"
  href_matches :: "py_exception + string list"

text \<open>The network as one crawl sees it: \<^verbatim>\<open>RobotFileParser.read\<close> for a robots URL and
  \<^verbatim>\<open>session.get\<close> for a page URL either raise or return.\<close>

record network =
  robots_read :: "string \<Rightarrow> py_exception + RobotFileParser"
  session_get :: "string \<Rightarrow> py_exception + Response"

text \<open>\<^verbatim>\<open>CrawlerCore._is_robots_allowed(url)\<close>, returning the verdict and the cache. Every
  exception ends in the handler that answers \<^verbatim>\<open>True\<close>: those of \<^verbatim>\<open>urlparse\<close>, \<^verbatim>\<open>urljoin\<close>
  and \<^verbatim>\<open>set_url\<close>, and the \<^verbatim>\<open>IndexError\<close> of \<^verbatim>\<open>user_agent.split()[0]\<close> on an empty list.\<close>

definition is_robots_allowed ::
  "CrawlerConfig \<Rightarrow> network \<Rightarrow> robots_cache \<Rightarrow> string \<Rightarrow> bool \<times> robots_cache" where
  "is_robots_allowed config net cache url =
     (case urlparse url of
        Inl e \<Rightarrow> (True, cache)
      | Inr parsed \<Rightarrow>
          let domain = scheme parsed @ ''://'' @ netloc parsed in
          case (case cache domain of
                  Some entry \<Rightarrow> Inr (entry, cache)
                | None \<Rightarrow>
                    (case urljoin domain ''/robots.txt'' of
                       Inl e \<Rightarrow> Inl (True, cache)
                     | Inr robots_url \<Rightarrow>
                        (case urlparse robots_url of
                           Inl e \<Rightarrow> Inl (True, cache)
                         | Inr p \<Rightarrow>
                            (case robots_read net robots_url of
                               Inl e \<Rightarrow> Inl (True, cache(domain \<mapsto> None))
                             | Inr rp \<Rightarrow> Inr (Some rp, cache(domain \<mapsto> Some rp)))))) of
            Inl returned \<Rightarrow> returned
          | Inr (robots_parser, cache') \<Rightarrow>
             (case robots_parser of
                None \<Rightarrow> (True, cache')
              | Some rp \<Rightarrow>
                 (case py_split (user_agent config) of
                    [] \<Rightarrow> (True, cache')
                  | token # tokens \<Rightarrow> (rp token url, cache'))))"

text \<open>The two \<^verbatim>\<open>except\<close> clauses of \<^verbatim>\<open>crawl_url\<close>: a \<^verbatim>\<open>RequestException\<close> is a request
  error, any other exception a parse error.\<close>

fun except_clauses :: "py_exception \<Rightarrow> CrawlResult \<Rightarrow> CrawlResult" where
  "except_clauses (RequestException m) result =
     result\<lparr>error_message := Some (''Request error: '' @ m), status := ''request_error''\<rparr>"
| "except_clauses e result =
     result\<lparr>error_message := Some (''Parsing error: '' @ str_of_exception e),
            status := ''parse_error''\<rparr>"

text \<open>\<^verbatim>\<open>response.headers.get('content-type', default)\<close>\<close>

definition headers_get_content_type :: "Response \<Rightarrow> string \<Rightarrow> string" where
  "headers_get_content_type response dflt =
     (case content_type response of None \<Rightarrow> dflt | Some v \<Rightarrow> v)"

text \<open>\<^verbatim>\<open>CrawlerCore.crawl_url(url, depth)\<close>, returning the result and the robots cache.
  The result starts with the status \<^verbatim>\<open>error\<close> and is updated in place, so an exception
  leaves it with the fields written before it.\<close>

definition crawl_url ::
  "CrawlerConfig \<Rightarrow> network \<Rightarrow> robots_cache \<Rightarrow> string \<Rightarrow> int \<Rightarrow> CrawlResult \<times> robots_cache" where
  "crawl_url config net cache url depth =
     (let result = \<lparr>res_url = url, title = [], content_length = 0, status = ''error'',
                     res_depth = depth, domain = get_domain_from_url url, error_message = None,
                     links = []\<rparr>
      in if \<not> is_url_allowed config url
         then (result\<lparr>error_message := Some ''URL blocked by configuration'',
                      status := ''blocked''\<rparr>, cache)
         else
           let (allowed, cache') = (if respect_robots_txt config
                                    then is_robots_allowed config net cache url
                                    else (True, cache))
           in if \<not> allowed
              then (result\<lparr>error_message := Some ''Blocked by robots.txt'',
                           status := ''robots_blocked''\<rparr>, cache')
              else
                (case session_get net url of
                   Inl e \<Rightarrow> (except_clauses e result, cache')
                 | Inr response \<Rightarrow>
                     if 400 \<le> status_code response \<and> status_code response < 600
                     then (except_clauses (RequestException (http_error response)) result, cache')
                     else
                       let result = result\<lparr>content_length := length (content response)\<rparr> in
                       if py_in ''text/html'' (py_lower (headers_get_content_type response []))
                       then
                         (case soup_title response of
                            Inl e \<Rightarrow> (except_clauses e result, cache')
                          | Inr title_tag \<Rightarrow>
                              let result =
                                    (case title_tag of
                                       Some text \<Rightarrow> result\<lparr>title := clean_text text 200\<rparr>
                                     | None \<Rightarrow> result\<lparr>title := ''No Title Found''\<rparr>);
                                  result =
                                    (if depth < max_depth config
                                     then (case href_matches response of
                                             Inl e \<Rightarrow> result\<lparr>links := []\<rparr>
                                           | Inr matches \<Rightarrow>
                                               result\<lparr>links := filter (is_url_allowed config)
                                                 (extract_links_from_html matches url)\<rparr>)
                                     else result)
                              in (result\<lparr>status := ''success''\<rparr>, cache'))
                       else
                         (result\<lparr>title := ''Non-HTML content (''
                                    @ headers_get_content_type response ''unknown'' @ '')'',
                                  status := ''success''\<rparr>, cache')))"

section \<open>\<^verbatim>\<open>database_manager.py\<close>\<close>

text \<open>
  The two tables that \<^verbatim>\<open>_init_database\<close> creates, each with the counter that
  \<^verbatim>\<open>AUTOINCREMENT\<close> keeps for its key \<^verbatim>\<open>id\<close>. The timestamp columns and \<^verbatim>\<open>response_time\<close> are
  left out. An error of SQLite itself (a locked or unreachable file) is not modelled, so
  both inserts return \<^verbatim>\<open>True\<close> and the model returns the database.
\<close>

record crawled_row =
  row_id :: nat
  row_url :: string
  row_title :: string
  row_content_length :: nat
  row_status :: string
  row_depth :: int
  row_domain :: "string option"
  row_error_message :: "string option"

record link_row =
  link_id :: nat
  source_url :: string
  target_url :: string
  link_depth :: int

record database =
  crawled_urls :: "crawled_row list"
  crawled_urls_seq :: nat
  discovered_links :: "link_row list"
  discovered_links_seq :: nat

definition init_database :: database where
  "init_database = \<lparr>crawled_urls = [], crawled_urls_seq = 0, discovered_links = [],
     discovered_links_seq = 0\<rparr>"

text \<open>\<^verbatim>\<open>insert_crawl_result(result)\<close>: \<^verbatim>\<open>INSERT OR REPLACE\<close> deletes the rows that clash with
  the new one on the key \<^verbatim>\<open>id\<close> or on the \<^verbatim>\<open>UNIQUE\<close> column \<^verbatim>\<open>url\<close>, then inserts.\<close>

definition insert_crawl_result :: "database \<Rightarrow> CrawlResult \<Rightarrow> database" where
  "insert_crawl_result db result =
     (let new_id = crawled_urls_seq db + 1;
          row = \<lparr>row_id = new_id, row_url = res_url result, row_title = title result,
                  row_content_length = content_length result, row_status = status result,
                  row_depth = res_depth result, row_domain = domain result,
                  row_error_message = error_message result\<rparr>
      in db\<lparr>crawled_urls :=
               filter (\<lambda>r. row_id r \<noteq> new_id \<and> row_url r \<noteq> res_url result) (crawled_urls db)
               @ [row],
             crawled_urls_seq := new_id\<rparr>)"

text \<open>One \<^verbatim>\<open>INSERT OR IGNORE INTO discovered_links\<close>: the row is dropped when it clashes
  with a stored one. The table declares one uniqueness constraint, the key \<^verbatim>\<open>id\<close>, and no
  \<^verbatim>\<open>UNIQUE\<close> over \<^verbatim>\<open>(source_url, target_url)\<close>; the foreign key is not enforced, SQLite
  leaving that off unless a pragma turns it on.\<close>

definition insert_or_ignore_link :: "database \<Rightarrow> string \<Rightarrow> string \<Rightarrow> int \<Rightarrow> database" where
  "insert_or_ignore_link db source target d =
     (let new_id = discovered_links_seq db + 1 in
      if list_ex (\<lambda>r. link_id r = new_id) (discovered_links db) then db
      else db\<lparr>discovered_links := discovered_links db
                 @ [\<lparr>link_id = new_id, source_url = source, target_url = target,
                      link_depth = d\<rparr>],
               discovered_links_seq := new_id\<rparr>)"

text \<open>\<^verbatim>\<open>insert_discovered_links(source_url, target_urls, depth)\<close>\<close>

fun insert_discovered_links :: "database \<Rightarrow> string \<Rightarrow> string list \<Rightarrow> int \<Rightarrow> database" where
  "insert_discovered_links db source [] d = db"
| "insert_discovered_links db source (target # targets) d =
     insert_discovered_links (insert_or_ignore_link db source target d) source targets d"

section \<open>\<^verbatim>\<open>mpi_coordinator.py\<close>\<close>

text \<open>\<^verbatim>\<open>WorkItem\<close>, without its timestamp.\<close>

record WorkItem =
  url :: string
  depth :: int

text \<open>
  The state of a run. The first five fields are the master's attributes; \<^verbatim>\<open>domain_counts\<close>
  is a \<^verbatim>\<open>defaultdict(int)\<close>, a function that reads 0 at a key never written. \<open>urls_sent\<close> and
  \<open>results_received\<close> are the counters of \<^verbatim>\<open>run_master\<close>. \<open>sent\<close> lists every
  \<^verbatim>\<open>comm.send(..., tag=0)\<close> of the master in order, with its destination and its payload
  (\<open>None\<close> is the termination signal); \<open>in_flight\<close> holds the work items sent and not yet
  answered. \<open>store\<close> is the database, and \<open>robots_caches\<close> gives each worker the cache of
  its \<^verbatim>\<open>CrawlerCore\<close>.
\<close>

record state =
  visited_urls :: "string set"
  work_queue :: "WorkItem list"
  active_workers :: "nat set"
  domain_counts :: "string \<Rightarrow> int"
  total_processed :: nat
  urls_sent :: nat
  results_received :: nat
  sent :: "(nat \<times> WorkItem option) list"
  in_flight :: "(nat \<times> WorkItem) list"
  store :: database
  robots_caches :: "nat \<Rightarrow> robots_cache"

definition init_state :: state where
  "init_state = \<lparr>visited_urls = {}, work_queue = [], active_workers = {},
     domain_counts = (\<lambda>d. 0), total_processed = 0, urls_sent = 0, results_received = 0,
     sent = [], in_flight = [], store = init_database, robots_caches = (\<lambda>w. Map.empty)\<rparr>"

text \<open>The work items among the messages sent: the jobs dispatched so far.\<close>

fun dispatched :: "(nat \<times> WorkItem option) list \<Rightarrow> WorkItem list" where
  "dispatched [] = []"
| "dispatched ((dest, None) # ms) = dispatched ms"
| "dispatched ((dest, Some work_item) # ms) = work_item # dispatched ms"

text \<open>\<^verbatim>\<open>comm.send(work_item, dest=worker_rank, tag=0)\<close> and \<^verbatim>\<open>comm.send(None, ...)\<close>\<close>

definition comm_send :: "state \<Rightarrow> nat \<Rightarrow> WorkItem option \<Rightarrow> state" where
  "comm_send st dest payload =
     st\<lparr>sent := sent st @ [(dest, payload)],
        in_flight := (case payload of
                        None \<Rightarrow> in_flight st
                      | Some work_item \<Rightarrow> in_flight st @ [(dest, work_item)])\<rparr>"

text \<open>\<^verbatim>\<open>_load_seed_urls()\<close>: the lines of the seed file, or \<open>None\<close> when it cannot be read.\<close>

definition load_seed_urls :: "string list option \<Rightarrow> string list" where
  "load_seed_urls file =
     (case file of
        None \<Rightarrow> []
      | Some lines \<Rightarrow>
          validate_seed_urls (map py_strip (filter (\<lambda>line. py_strip line \<noteq> []) lines)))"

text \<open>\<^verbatim>\<open>_filter_and_add_links(links, depth)\<close>: the loop over \<open>links\<close>, with the set
  \<^verbatim>\<open>new_links\<close> built so far.\<close>

fun filter_and_add_links ::
  "CrawlerConfig \<Rightarrow> string list \<Rightarrow> int \<Rightarrow> state \<Rightarrow> string list \<Rightarrow> string list \<times> state" where
  "filter_and_add_links config [] d st new_links = (new_links, st)"
| "filter_and_add_links config (link # rest) d st new_links =
     (if link \<in> visited_urls st then filter_and_add_links config rest d st new_links
      else if (case get_domain_from_url link of
                 None \<Rightarrow> False
               | Some dmn \<Rightarrow> dmn \<noteq> [] \<and> domain_counts st dmn \<ge> max_urls_per_domain config)
      then filter_and_add_links config rest d st new_links
      else if \<not> is_url_allowed config link
      then filter_and_add_links config rest d st new_links
      else filter_and_add_links config rest d
             (st\<lparr>work_queue := work_queue st @ [\<lparr>url = link, depth = d\<rparr>],
                 visited_urls := insert link (visited_urls st)\<rparr>)
             (if link \<in> set new_links then new_links else new_links @ [link]))"

text \<open>\<^verbatim>\<open>_process_result(result, db_manager)\<close>\<close>

definition process_result :: "CrawlerConfig \<Rightarrow> CrawlResult \<Rightarrow> state \<Rightarrow> state" where
  "process_result config result st0 =
     (let st = st0\<lparr>total_processed := total_processed st0 + 1,
                   store := insert_crawl_result (store st0) result\<rparr>;
          st = (if status result = ''success''
                   \<and> links result \<noteq> [] \<and> res_depth result < max_depth config
                then (case filter_and_add_links config (links result) (res_depth result + 1) st []
                      of (new_links, st') \<Rightarrow>
                        if new_links \<noteq> []
                        then st'\<lparr>store := insert_discovered_links (store st') (res_url result)
                                            new_links (res_depth result + 1)\<rparr>
                        else st')
                else st)
      in case domain result of
           None \<Rightarrow> st
         | Some dmn \<Rightarrow>
             if dmn \<noteq> []
             then st\<lparr>domain_counts := (domain_counts st)(dmn := domain_counts st dmn + 1)\<rparr>
             else st)"

text \<open>The seed loop of \<^verbatim>\<open>run_master\<close>.\<close>

fun seed_loop :: "string list \<Rightarrow> state \<Rightarrow> state" where
  "seed_loop [] st = st"
| "seed_loop (seed # seed_urls) st =
     (if seed \<notin> visited_urls st
      then seed_loop seed_urls
             (st\<lparr>work_queue := work_queue st @ [\<lparr>url = seed, depth = 0\<rparr>],
                 visited_urls := insert seed (visited_urls st)\<rparr>)
      else seed_loop seed_urls st)"

text \<open>The initial distribution, over the ranks of
  \<^verbatim>\<open>range(1, min(self.size, len(self.work_queue) + 1))\<close>.\<close>

fun initial_distribution :: "nat list \<Rightarrow> state \<Rightarrow> state" where
  "initial_distribution [] st = st"
| "initial_distribution (worker_rank # ranks) st =
     (case work_queue st of
        [] \<Rightarrow> initial_distribution ranks st
      | work_item # queue \<Rightarrow>
          initial_distribution ranks
            ((comm_send (st\<lparr>work_queue := queue\<rparr>) worker_rank (Some work_item))
               \<lparr>active_workers := insert worker_rank (active_workers st),
                urls_sent := urls_sent st + 1\<rparr>))"

text \<open>\<^verbatim>\<open>_terminate_all_workers()\<close>\<close>

definition terminate_all_workers :: "nat \<Rightarrow> state \<Rightarrow> state" where
  "terminate_all_workers nprocs st =
     fold (\<lambda>worker_rank s. comm_send s worker_rank None) [1 ..< nprocs] st"

text \<open>The oldest work item in flight to a worker, and the others: what \<^verbatim>\<open>run_worker\<close>
  receives next.\<close>

fun next_job :: "nat \<Rightarrow> (nat \<times> WorkItem) list \<Rightarrow> (WorkItem \<times> (nat \<times> WorkItem) list) option" where
  "next_job worker_rank [] = None"
| "next_job worker_rank ((dest, work_item) # rest) =
     (if dest = worker_rank then Some (work_item, rest)
      else (case next_job worker_rank rest of
              None \<Rightarrow> None
            | Some (found, others) \<Rightarrow> Some (found, (dest, work_item) # others)))"

text \<open>One pass of the main loop of \<^verbatim>\<open>run_master\<close> after \<^verbatim>\<open>comm.recv\<close> has returned \<open>result\<close>
  from \<open>worker_rank\<close>.\<close>

definition loop_body :: "CrawlerConfig \<Rightarrow> nat \<Rightarrow> CrawlResult \<Rightarrow> state \<Rightarrow> state" where
  "loop_body config worker_rank result st0 =
     (let st = process_result config result (st0\<lparr>results_received := results_received st0 + 1\<rparr>)
      in case work_queue st of
           work_item # queue \<Rightarrow>
             (comm_send (st\<lparr>work_queue := queue\<rparr>) worker_rank (Some work_item))
               \<lparr>urls_sent := urls_sent st + 1\<rparr>
         | [] \<Rightarrow>
             let st = st\<lparr>active_workers := active_workers st - {worker_rank}\<rparr>
             in if work_queue st = [] \<and> worker_rank \<in> active_workers st
                then comm_send st worker_rank None else st)"

text \<open>
  The main loop. The master blocks in \<^verbatim>\<open>comm.recv\<close> until some worker answers; an event
  \<open>(worker_rank, net)\<close> names the worker whose result arrives next and the network as that
  worker's crawl saw it. The worker runs \<^verbatim>\<open>crawl_url\<close> on its oldest work item in flight
  (\<^verbatim>\<open>run_worker\<close>) and the master runs the loop body on the result. No result can come from
  a worker that holds no work item: such an event is passed over. The list of events may
  end while the loop is still running; the state reached is returned.
\<close>

fun main_loop :: "CrawlerConfig \<Rightarrow> state \<Rightarrow> (nat \<times> network) list \<Rightarrow> state" where
  "main_loop config st [] = st"
| "main_loop config st ((worker_rank, net) # events) =
     (if results_received st < urls_sent st \<or> work_queue st \<noteq> [] then
        (case next_job worker_rank (in_flight st) of
           None \<Rightarrow> main_loop config st events
         | Some (work_item, others) \<Rightarrow>
             (case crawl_url config net (robots_caches st worker_rank) (url work_item)
                     (depth work_item) of
                (result, cache) \<Rightarrow>
                  main_loop config
                    (loop_body config worker_rank result
                       (st\<lparr>in_flight := others,
                           robots_caches := (robots_caches st)(worker_rank := cache)\<rparr>))
                    events))
      else st)"

text \<open>\<^verbatim>\<open>run_master\<close> with \<open>nprocs\<close> processes (\<^verbatim>\<open>self.size\<close>), on the seed file \<open>file\<close>, up to the end of
  \<open>events\<close>. The workers are terminated when there is no seed and when the main loop has
  ended.\<close>

definition run_master ::
  "CrawlerConfig \<Rightarrow> nat \<Rightarrow> string list option \<Rightarrow> (nat \<times> network) list \<Rightarrow> state" where
  "run_master config nprocs file events =
     (let seed_urls = load_seed_urls file in
      if seed_urls = [] then terminate_all_workers nprocs init_state
      else
        let st = seed_loop seed_urls init_state;
            st = initial_distribution [1 ..< min nprocs (length (work_queue st) + 1)] st;
            st = main_loop config st events
        in if results_received st < urls_sent st \<or> work_queue st \<noteq> [] then st
           else terminate_all_workers nprocs st)"

section \<open>The frontier of a run\<close>

text \<open>The work items admitted to the frontier so far: a work item enters the work queue
  once and leaves it when it is sent to a worker, so these are the work items dispatched
  followed by those still queued.\<close>

definition admitted :: "state \<Rightarrow> WorkItem list" where
  "admitted st = dispatched (sent st) @ work_queue st"

text \<open>No URL was admitted twice, and every URL admitted is marked visited.\<close>

definition dedup_inv :: "state \<Rightarrow> bool" where
  "dedup_inv st =
     (distinct (map url (admitted st)) \<and> url ` set (admitted st) \<subseteq> visited_urls st)"




section \<open>Collapsed whitespace\<close>

text \<open>No two whitespace characters stand side by side.\<close>

fun single_spaced :: "string \<Rightarrow> bool" where
  "single_spaced [] = True"
| "single_spaced [c] = True"
| "single_spaced (c # d # cs) = (\<not> (isspace c \<and> isspace d) \<and> single_spaced (d # cs))"

text \<open>A string is whitespace-collapsed when its only whitespace characters are single
  spaces between other characters: each whitespace character is a space, no two are
  adjacent, and neither the first nor the last character is one.\<close>

definition whitespace_collapsed :: "string \<Rightarrow> bool" where
  "whitespace_collapsed s =
     (list_all (\<lambda>c. \<not> isspace c \<or> c = CHR '' '') s \<and> single_spaced s
      \<and> (s = [] \<or> (\<not> isspace (hd s) \<and> \<not> isspace (last s))))"

section \<open>Example pages, networks and robots policies\<close>

text \<open>A network on which \<^verbatim>\<open>robots.txt\<close> cannot be read and every request times out.\<close>

definition net_down :: network where
  "net_down = \<lparr>robots_read = (\<lambda>u. Inl (Exception ''unreachable'')),
     session_get = (\<lambda>u. Inl (RequestException ''timed out''))\<rparr>"

text \<open>A robots policy that disallows every URL for every user agent.\<close>

definition deny_all :: RobotFileParser where
  "deny_all = (\<lambda>useragent u. False)"

text \<open>An HTML page titled \<^verbatim>\<open>C\<close> that links to \<^verbatim>\<open>/a\<close>, \<^verbatim>\<open>/b\<close> and \<^verbatim>\<open>/c\<close>, and a network that
  serves it at every URL and has no \<^verbatim>\<open>robots.txt\<close>.\<close>

definition page_c :: Response where
  "page_c = \<lparr>status_code = 200, http_error = [], content_type = Some ''text/html; charset=utf-8'',
     content = ''<html/>'', soup_title = Inr (Some ''C''),
     href_matches = Inr [''/a'', ''/b'', ''/c'']\<rparr>"

definition net_c :: network where
  "net_c = \<lparr>robots_read = (\<lambda>u. Inl (Exception ''unreachable'')), session_get = (\<lambda>u. Inr page_c)\<rparr>"


text \<open>An HTML page whose title is 201 letters, served at every URL.\<close>

definition page_long_title :: Response where
  "page_long_title = \<lparr>status_code = 200, http_error = [], content_type = Some ''text/html'',
     content = ''<html/>'', soup_title = Inr (Some (replicate 201 CHR ''a'')),
     href_matches = Inr []\<rparr>"

definition net_long_title :: network where
  "net_long_title = \<lparr>robots_read = (\<lambda>u. Inl (Exception ''unreachable'')),
     session_get = (\<lambda>u. Inr page_long_title)\<rparr>"

section \<open>The statuses of a crawl result\<close>

lemma status_except_clauses:
  "status (except_clauses e r) = ''request_error'' \<or> status (except_clauses e r) = ''parse_error''"
  by (cases e) simp_all

lemma status_except_clauses_not_success: "status (except_clauses e r) \<noteq> ''success''"
  using status_except_clauses [of e r] by auto

text \<open>
  C8. Whatever the configuration, the network, the robots cache, the URL and the depth,
  the result that \<open>crawl_url\<close> returns carries one of the statuses \<^verbatim>\<open>success\<close>,
  \<^verbatim>\<open>blocked\<close>, \<^verbatim>\<open>robots_blocked\<close>, \<^verbatim>\<open>request_error\<close> and \<^verbatim>\<open>parse_error\<close>; the status
  \<^verbatim>\<open>error\<close> it starts with is overwritten on every path.
\<close>

theorem crawl_url_status:
  "status (fst (crawl_url config net cache u d))
     \<in> {''success'', ''blocked'', ''robots_blocked'', ''request_error'', ''parse_error''}
   \<and> status (fst (crawl_url config net cache u d)) \<noteq> ''error''"
proof -
  have ex: "\<And>e r. status (except_clauses e r) \<in> {''request_error'', ''parse_error''}"
    using status_except_clauses by auto
  have "status (fst (crawl_url config net cache u d))
     \<in> {''success'', ''blocked'', ''robots_blocked'', ''request_error'', ''parse_error''}"
    unfolding crawl_url_def Let_def
    using ex by (auto split: prod.splits sum.splits option.splits if_splits)
  then show ?thesis by auto
qed

theorem crawl_url_status_witness:
  "status (fst (crawl_url default_config net_down Map.empty ''http://a.test/'' 0))
     \<in> {''success'', ''blocked'', ''robots_blocked'', ''request_error'', ''parse_error''}
   \<and> status (fst (crawl_url default_config net_down Map.empty ''http://a.test/'' 0)) \<noteq> ''error''"
  by (rule crawl_url_status)

section \<open>Normalisation of URLs\<close>

text \<open>
  C4. Normalising twice is not normalising once. The path \<^verbatim>\<open>//\<close> ends with a slash and is
  longer than one character, so \<^verbatim>\<open>rstrip('/')\<close> empties it and the URL is reassembled
  without a path; normalising that output puts the path \<^verbatim>\<open>/\<close> back.
\<close>

theorem normalize_url_not_idempotent:
  "normalize_url ''http://a.com//'' None = Some ''http://a.com''
   \<and> normalize_url ''http://a.com'' None = Some ''http://a.com/''"
  by code_simp

text \<open>
  C5. The port 8080 is not the default port of \<^verbatim>\<open>http\<close>, yet the host loses it: the code
  looks for the text \<^verbatim>\<open>:80\<close> anywhere in the authority and deletes it, which turns
  \<^verbatim>\<open>a.com:8080\<close> into \<^verbatim>\<open>a.com80\<close>.
\<close>

theorem normalize_url_mangles_port_8080:
  "normalize_url ''http://a.com:8080/x'' None = Some ''http://a.com80/x''"
  by code_simp

section \<open>Discovered links in the database\<close>

text \<open>
  C9. Inserting the link from \<^verbatim>\<open>a\<close> to \<^verbatim>\<open>b\<close> twice leaves two rows for the pair in
  \<^verbatim>\<open>discovered_links\<close>: \<^verbatim>\<open>INSERT OR IGNORE\<close> has no constraint over the pair to clash with.
\<close>

theorem insert_discovered_links_keeps_duplicates:
  "length (filter (\<lambda>r. source_url r = ''a'' \<and> target_url r = ''b'')
     (discovered_links
        (insert_discovered_links (insert_discovered_links init_database ''a'' [''b''] 1)
           ''a'' [''b''] 1))) = 2"
  by code_simp

section \<open>Each URL is dispatched once\<close>

lemma dispatched_append: "dispatched (xs @ ys) = dispatched xs @ dispatched ys"
  by (induction xs rule: dispatched.induct) simp_all

lemma admitted_send_head:
  "work_queue st = work_item # queue \<Longrightarrow>
   admitted (comm_send (st\<lparr>work_queue := queue\<rparr>) w (Some work_item)) = admitted st"
  by (simp add: admitted_def comm_send_def dispatched_append)

lemma admitted_send_none: "admitted (comm_send st w None) = admitted st"
  by (simp add: admitted_def comm_send_def dispatched_append)

lemma visited_comm_send: "visited_urls (comm_send st w m) = visited_urls st"
  by (simp add: comm_send_def)

lemma dedup_inv_enqueue:
  "dedup_inv st \<Longrightarrow> u \<notin> visited_urls st \<Longrightarrow>
   dedup_inv (st\<lparr>work_queue := work_queue st @ [\<lparr>url = u, depth = d\<rparr>],
                 visited_urls := insert u (visited_urls st)\<rparr>)"
  by (auto simp: dedup_inv_def admitted_def)

lemma dedup_inv_filter_and_add_links:
  "dedup_inv st \<Longrightarrow> dedup_inv (snd (filter_and_add_links config ls d st new_links))"
proof (induction ls arbitrary: st new_links)
  case Nil
  then show ?case by simp
next
  case (Cons link rest)
  show ?case
    using Cons.prems Cons.IH dedup_inv_enqueue by simp
qed

lemma dedup_inv_cong:
  "dedup_inv st \<Longrightarrow> sent st' = sent st \<Longrightarrow> work_queue st' = work_queue st \<Longrightarrow>
   visited_urls st' = visited_urls st \<Longrightarrow> dedup_inv st'"
  by (simp add: dedup_inv_def admitted_def)

lemma dedup_inv_process_result:
  assumes "dedup_inv st"
  shows "dedup_inv (process_result config result st)"
proof -
  let ?st1 = "st\<lparr>total_processed := total_processed st + 1,
                   store := insert_crawl_result (store st) result\<rparr>"
  have 1: "dedup_inv ?st1" using assms by (rule dedup_inv_cong) simp_all
  have 2: "dedup_inv (snd (filter_and_add_links config (links result) (res_depth result + 1) ?st1 []))"
    using 1 by (rule dedup_inv_filter_and_add_links)
  show ?thesis
    unfolding process_result_def Let_def
    using 1 2
    by (auto split: prod.splits option.splits elim: dedup_inv_cong)
qed

lemma dedup_inv_seed_loop: "dedup_inv st \<Longrightarrow> dedup_inv (seed_loop seeds st)"
proof (induction seeds arbitrary: st)
  case Nil
  then show ?case by simp
next
  case (Cons seed seeds)
  then show ?case using dedup_inv_enqueue by simp
qed

lemma dedup_inv_send_head:
  "dedup_inv st \<Longrightarrow> work_queue st = work_item # queue \<Longrightarrow>
   dedup_inv (comm_send (st\<lparr>work_queue := queue\<rparr>) w (Some work_item))"
  using admitted_send_head [of st work_item queue w]
  by (simp add: dedup_inv_def visited_comm_send)

lemma dedup_inv_send_none: "dedup_inv st \<Longrightarrow> dedup_inv (comm_send st w None)"
  by (simp add: dedup_inv_def admitted_send_none visited_comm_send)

lemma dedup_inv_initial_distribution:
  "dedup_inv st \<Longrightarrow> dedup_inv (initial_distribution ranks st)"
proof (induction ranks arbitrary: st)
  case Nil
  then show ?case by simp
next
  case (Cons w ranks)
  show ?case
  proof (cases "work_queue st")
    case Nil
    then show ?thesis using Cons by simp
  next
    case (Cons work_item queue)
    have "dedup_inv (comm_send (st\<lparr>work_queue := queue\<rparr>) w (Some work_item))"
      using Cons.prems Cons by (rule dedup_inv_send_head)
    then have "dedup_inv ((comm_send (st\<lparr>work_queue := queue\<rparr>) w (Some work_item))
               \<lparr>active_workers := insert w (active_workers st), urls_sent := urls_sent st + 1\<rparr>)"
      by (rule dedup_inv_cong) simp_all
    then show ?thesis using Cons Cons.IH by simp
  qed
qed

lemma dedup_inv_loop_body:
  assumes "dedup_inv st"
  shows "dedup_inv (loop_body config w result st)"
proof -
  let ?st = "process_result config result (st\<lparr>results_received := results_received st + 1\<rparr>)"
  have "dedup_inv (st\<lparr>results_received := results_received st + 1\<rparr>)"
    using assms by (rule dedup_inv_cong) simp_all
  then have p: "dedup_inv ?st" by (rule dedup_inv_process_result)
  show ?thesis
  proof (cases "work_queue ?st")
    case Nil
    have "dedup_inv (?st\<lparr>active_workers := active_workers ?st - {w}\<rparr>)"
      using p by (rule dedup_inv_cong) simp_all
    then show ?thesis using Nil by (simp add: loop_body_def Let_def dedup_inv_send_none)
  next
    case (Cons work_item queue)
    have "dedup_inv (comm_send (?st\<lparr>work_queue := queue\<rparr>) w (Some work_item))"
      using p Cons by (rule dedup_inv_send_head)
    then have "dedup_inv ((comm_send (?st\<lparr>work_queue := queue\<rparr>) w (Some work_item))
        \<lparr>urls_sent := urls_sent ?st + 1\<rparr>)"
      by (rule dedup_inv_cong) simp_all
    then show ?thesis using Cons by (simp add: loop_body_def Let_def)
  qed
qed

lemma dedup_inv_main_loop: "dedup_inv st \<Longrightarrow> dedup_inv (main_loop config st events)"
proof (induction config st events rule: main_loop.induct)
  case (1 config st)
  then show ?case by simp
next
  case (2 config st w net events)
  show ?case
  proof (cases "results_received st < urls_sent st \<or> work_queue st \<noteq> []")
    case False
    then show ?thesis using "2.prems" by simp
  next
    case guard: True
    show ?thesis
    proof (cases "next_job w (in_flight st)")
      case None
      then show ?thesis using guard "2.IH"(1) "2.prems" by simp
    next
      case (Some found)
      obtain work_item others where f: "found = (work_item, others)" by (cases found)
      obtain result cache where c:
        "crawl_url config net (robots_caches st w) (url work_item) (depth work_item) = (result, cache)"
        by (cases "crawl_url config net (robots_caches st w) (url work_item) (depth work_item)")
      have "dedup_inv (st\<lparr>in_flight := others, robots_caches := (robots_caches st)(w := cache)\<rparr>)"
        using "2.prems" by (rule dedup_inv_cong) simp_all
      then have "dedup_inv (loop_body config w result
          (st\<lparr>in_flight := others, robots_caches := (robots_caches st)(w := cache)\<rparr>))"
        by (rule dedup_inv_loop_body)
      then show ?thesis
        using guard Some f c "2.IH"(2) [OF guard Some f [symmetric] c [symmetric]] by simp
    qed
  qed
qed

lemma dedup_inv_terminate: "dedup_inv st \<Longrightarrow> dedup_inv (terminate_all_workers n st)"
proof -
  have "\<And>st. dedup_inv st \<Longrightarrow> dedup_inv (fold (\<lambda>w s. comm_send s w None) ws st)" for ws
    by (induction ws) (simp_all add: dedup_inv_send_none)
  then show "dedup_inv st \<Longrightarrow> dedup_inv (terminate_all_workers n st)"
    by (simp add: terminate_all_workers_def)
qed

lemma dedup_inv_init: "dedup_inv init_state"
  by (simp add: dedup_inv_def admitted_def init_state_def)

lemma dedup_inv_run_master: "dedup_inv (run_master config nprocs file events)"
  unfolding run_master_def Let_def
  by (simp add: dedup_inv_init dedup_inv_terminate dedup_inv_main_loop
      dedup_inv_initial_distribution dedup_inv_seed_loop)

text \<open>
  C2. In every run, at every point of it, no two work items sent to the workers carry the
  same URL, and none of them is still in the work queue: a URL is enqueued at most once
  and dispatched at most once.
\<close>

theorem dispatched_urls_distinct:
  "distinct (map url (dispatched (sent (run_master config nprocs seed_file events))))
   \<and> distinct (map url (dispatched (sent (run_master config nprocs seed_file events))
        @ work_queue (run_master config nprocs seed_file events)))"
  using dedup_inv_run_master [of config nprocs seed_file events]
  by (simp add: dedup_inv_def admitted_def)

theorem dispatched_urls_distinct_witness:
  "distinct (map url (dispatched (sent (run_master default_config 3
       (Some [''http://a.test/'', ''http://a.test'', ''http://b.test/x'']) []))))
   \<and> distinct (map url (dispatched (sent (run_master default_config 3
       (Some [''http://a.test/'', ''http://a.test'', ''http://b.test/x'']) []))
        @ work_queue (run_master default_config 3
       (Some [''http://a.test/'', ''http://a.test'', ''http://b.test/x'']) [])))"
  by (rule dispatched_urls_distinct)

section \<open>The depth of a dispatched work item\<close>



lemma filter_and_add_links_frame:
  "sent (snd (filter_and_add_links config ls d st new_links)) = sent st
   \<and> in_flight (snd (filter_and_add_links config ls d st new_links)) = in_flight st"
  by (induction ls arbitrary: st new_links) simp_all




















lemma seed_loop_frame:
  "sent (seed_loop seeds st) = sent st \<and> in_flight (seed_loop seeds st) = in_flight st"
  by (induction seeds arbitrary: st) simp_all


















section \<open>The quota of a domain\<close>

text \<open>
  C1. With \<^verbatim>\<open>max_urls_per_domain = 2\<close>, one worker and the seed \<^verbatim>\<open>http://c.test/\<close>, whose page
  links to \<^verbatim>\<open>/a\<close>, \<^verbatim>\<open>/b\<close> and \<^verbatim>\<open>/c\<close>: when the first result has been processed, four URLs
  of the domain \<^verbatim>\<open>c.test\<close> have been admitted, and when the four results are in,
  \<^verbatim>\<open>domain_counts\<close> holds 4 for the domain. The count is raised when a result is processed,
  not when a link is admitted, so the links of one page all pass the check.
\<close>

theorem domain_quota_exceeded:
  "max_urls_per_domain (default_config\<lparr>max_urls_per_domain := 2\<rparr>) = 2
   \<and> map url (admitted (run_master (default_config\<lparr>max_urls_per_domain := 2\<rparr>) 2
         (Some [''http://c.test/'']) [(1, net_c)]))
       = [''http://c.test/'', ''http://c.test/a'', ''http://c.test/b'', ''http://c.test/c'']
   \<and> map (\<lambda>work_item. get_domain_from_url (url work_item))
         (admitted (run_master (default_config\<lparr>max_urls_per_domain := 2\<rparr>) 2
            (Some [''http://c.test/'']) [(1, net_c)]))
       = [Some ''c.test'', Some ''c.test'', Some ''c.test'', Some ''c.test'']
   \<and> domain_counts (run_master (default_config\<lparr>max_urls_per_domain := 2\<rparr>) 2
         (Some [''http://c.test/'']) [(1, net_c), (1, net_c), (1, net_c), (1, net_c)]) ''c.test'' = 4"
  by code_simp

section \<open>The admission filter\<close>

lemma py_replace_absent: "b \<notin> set s \<Longrightarrow> py_replace s [b] [] = s"
  by (induction s) (auto simp: py_startswith_def)

lemma remove_unsafe_id:
  "CHR 0x09 \<notin> set s \<Longrightarrow> CHR 0x0D \<notin> set s \<Longrightarrow> CHR 0x0A \<notin> set s \<Longrightarrow> remove_unsafe s = s"
  by (simp add: remove_unsafe_def UNSAFE_URL_BYTES_TO_REMOVE_def py_replace_absent)

lemma find_index_from_absent: "c \<notin> set s \<Longrightarrow> find_index_from c s i = None"
  by (induction s arbitrary: i) auto

lemma py_endswith_subset: "py_endswith s p \<Longrightarrow> set p \<subseteq> set s"
proof -
  assume "py_endswith s p"
  then have e: "drop (length s - length p) s = p" by (simp add: py_endswith_def)
  show ?thesis by (subst e [symmetric]) (rule set_drop_subset)
qed

lemma not_py_endswith_dot:
  "CHR ''.'' \<in> set p \<Longrightarrow> CHR ''.'' \<notin> set s \<Longrightarrow> \<not> py_endswith s p"
  using py_endswith_subset by blast

lemma py_endswith_empty: "py_endswith s []"
  by (simp add: py_endswith_def)

lemma lower_a: "lower_char CHR ''a'' = CHR ''a''"
  by (simp add: lower_char_def ascii_uppercase_def ascii_lowercase_def latin1_uppercase_def latin1_lowercase_def)

lemma py_lower_long: "py_lower (''http://a.com/'' @ replicate n CHR ''a'') = ''http://a.com/'' @ replicate n CHR ''a''"
  by (simp add: py_lower_def lower_char_def ascii_uppercase_def ascii_lowercase_def latin1_uppercase_def latin1_lowercase_def)

lemma urlsplit_long:
  "urlsplit (''http://a.com/'' @ replicate n CHR ''a'') [] =
     Inr \<lparr>s_scheme = ''http'', s_netloc = ''a.com'', s_path = ''/'' @ replicate n CHR ''a'',
          s_query = [], s_fragment = []\<rparr>"
proof -
  let ?u = "''http://a.com/'' @ replicate n CHR ''a''"
  have 1: "py_lstrip WHATWG_C0_CONTROL_OR_SPACE ?u = ?u"
    by (simp add: py_lstrip_def WHATWG_C0_CONTROL_OR_SPACE_def)
  have 2: "remove_unsafe ?u = ?u"
    by (rule remove_unsafe_id) simp_all
  have 3: "remove_unsafe (py_strip_chars WHATWG_C0_CONTROL_OR_SPACE []) = []"
    by (simp add: remove_unsafe_def py_strip_chars_def py_lstrip_def py_rstrip_def UNSAFE_URL_BYTES_TO_REMOVE_def)
  have 4: "py_find ?u CHR '':'' 0 = Some 4"
    by (simp add: py_find_def)
  have 5: "py_lower (take 4 ?u) = ''http''"
    by (simp add: py_lower_def lower_char_def ascii_uppercase_def ascii_lowercase_def latin1_uppercase_def latin1_lowercase_def)
  have 6: "splitnetloc (''//a.com/'' @ replicate n CHR ''a'') 2 = (''a.com'', ''/'' @ replicate n CHR ''a'')"
    by (simp add: splitnetloc_def py_find_def find_index_from_absent)
  show ?thesis
    unfolding urlsplit_def
    using 1 2 3 4 5 6
    by (simp add: Let_def scheme_chars_def ascii_lowercase_def ascii_uppercase_def digits_def)
qed

lemma urlparse_long:
  "urlparse (''http://a.com/'' @ replicate n CHR ''a'') =
     Inr \<lparr>scheme = ''http'', netloc = ''a.com'', path = ''/'' @ replicate n CHR ''a'',
          params = [], query = [], fragment = []\<rparr>"
  using urlsplit_long [of n] by (simp add: urlparse_def urlparse_scheme_def uses_params_def)


lemma long_url_allowed:
  "is_url_allowed default_config (''http://a.com/'' @ replicate n CHR ''a'')"
proof -
  let ?p = "''/'' @ replicate n CHR ''a''"
  have l: "py_lower ?p = ?p"
    by (simp add: py_lower_def lower_char_def ascii_uppercase_def ascii_lowercase_def latin1_uppercase_def latin1_lowercase_def)
  have d: "CHR ''.'' \<notin> set ?p" by simp
  have b: "\<not> list_ex (\<lambda>ext. py_endswith ?p ext) (blocked_extensions default_config)"
    using d by (simp add: default_config_def not_py_endswith_dot)
  have a: "list_ex (\<lambda>ext. py_endswith ?p ext) (allowed_extensions default_config)"
    by (simp add: default_config_def py_endswith_empty)
  have s: "''http'' \<in> set (allowed_protocols default_config)"
    by (simp add: default_config_def)
  show ?thesis
    unfolding is_url_allowed_def
    using a b s l py_lower_long [of n] urlparse_long [of n] by (simp add: Let_def)
qed

text \<open>
  C6. \<open>is_url_allowed\<close> bounds no length and consults no set of blocked domains; the
  configuration has neither setting. Its verdict rests on the scheme and the path of the
  lowercased URL alone: two URLs that parse to the same scheme and the same path get the
  same verdict, whatever their length, host, query and fragment.
\<close>

theorem is_url_allowed_scheme_and_path_only:
  assumes "urlparse (py_lower u) = Inr p" and "urlparse (py_lower u') = Inr p'"
    and "scheme p = scheme p'" and "path p = path p'"
  shows "is_url_allowed config u = is_url_allowed config u'"
  using assms by (simp add: is_url_allowed_def)

theorem is_url_allowed_scheme_and_path_only_witness:
  "urlparse (py_lower ''http://a.com/x.html'')
     = Inr \<lparr>scheme = ''http'', netloc = ''a.com'', path = ''/x.html'', params = [], query = [],
            fragment = []\<rparr>
   \<and> urlparse (py_lower ''HTTP://Blocked.Example:8080/x.html?session=0123456789#top'')
     = Inr \<lparr>scheme = ''http'', netloc = ''blocked.example:8080'', path = ''/x.html'',
            params = [], query = ''session=0123456789'', fragment = ''top''\<rparr>
   \<and> is_url_allowed default_config ''http://a.com/x.html''
     = is_url_allowed default_config ''HTTP://Blocked.Example:8080/x.html?session=0123456789#top''"
proof -
  have 1: "urlparse (py_lower ''http://a.com/x.html'')
     = Inr \<lparr>scheme = ''http'', netloc = ''a.com'', path = ''/x.html'', params = [], query = [],
            fragment = []\<rparr>"
    by code_simp
  have 2: "urlparse (py_lower ''HTTP://Blocked.Example:8080/x.html?session=0123456789#top'')
     = Inr \<lparr>scheme = ''http'', netloc = ''blocked.example:8080'', path = ''/x.html'',
            params = [], query = ''session=0123456789'', fragment = ''top''\<rparr>"
    by code_simp
  have 3: "is_url_allowed default_config ''http://a.com/x.html''
     = is_url_allowed default_config ''HTTP://Blocked.Example:8080/x.html?session=0123456789#top''"
    by (rule is_url_allowed_scheme_and_path_only [OF 1 2]) simp_all
  show ?thesis using 1 2 3 by blast
qed

theorem long_url_allowed_counterexample:
  "2000 < length (''http://a.com/'' @ replicate 2000 CHR ''a'')
   \<and> is_url_allowed default_config (''http://a.com/'' @ replicate 2000 CHR ''a'')"
  using long_url_allowed [of 2000] by simp

section \<open>The title of a crawled page\<close>

lemma isspace_space: "isspace CHR '' ''"
  by (simp add: isspace_def whitespace_def)

lemma not_isspace_dot: "\<not> isspace CHR ''.''"
  by (simp add: isspace_def whitespace_def)

lemma single_spaced_Cons: "\<not> isspace c \<Longrightarrow> single_spaced r \<Longrightarrow> single_spaced (c # r)"
  by (cases r) simp_all

lemma re_sub_spaces_only_spaces:
  "list_all (\<lambda>c. \<not> isspace c \<or> c = CHR '' '') (re_sub_spaces s)"
  by (induction s rule: re_sub_spaces.induct) simp_all

lemma re_sub_spaces_single_spaced: "single_spaced (re_sub_spaces s)"
proof (induction s rule: re_sub_spaces.induct)
  case 1
  show ?case by simp
next
  case (2 c cs)
  show ?case
  proof (cases "isspace c")
    case False
    then show ?thesis using 2 by (simp add: single_spaced_Cons)
  next
    case True
    show ?thesis
    proof (cases "dropWhile isspace cs")
      case Nil
      then show ?thesis using True by (simp del: dropWhile_eq_Nil_conv)
    next
      case (Cons x xs)
      then have "\<not> isspace x" using hd_dropWhile [of isspace cs] by auto
      then show ?thesis using True Cons "2.IH"(1) by simp
    qed
  qed
qed

lemma re_sub_spaces_hd:
  "s \<noteq> [] \<Longrightarrow> \<not> isspace (hd s) \<Longrightarrow> re_sub_spaces s \<noteq> [] \<and> hd (re_sub_spaces s) = hd s"
  by (cases s) simp_all

lemma last_dropWhile: "dropWhile P xs \<noteq> [] \<Longrightarrow> last (dropWhile P xs) = last xs"
  by (induction xs) (auto split: if_splits)

lemma re_sub_spaces_last:
  "s \<noteq> [] \<Longrightarrow> \<not> isspace (last s) \<Longrightarrow>
   re_sub_spaces s \<noteq> [] \<and> \<not> isspace (last (re_sub_spaces s))"
proof (induction s rule: re_sub_spaces.induct)
  case 1
  then show ?case by simp
next
  case (2 c cs)
  show ?case
  proof (cases "isspace c")
    case False
    show ?thesis
    proof (cases "cs = []")
      case True
      then show ?thesis using False by simp
    next
      case ne: False
      then have "\<not> isspace (last cs)" using "2.prems" by simp
      then show ?thesis using False ne "2.IH"(2) by simp
    qed
  next
    case True
    then have ne: "cs \<noteq> []" using "2.prems" by auto
    then have l: "\<not> isspace (last cs)" using "2.prems" by simp
    have "last cs \<in> set cs" using ne by simp
    then have d: "dropWhile isspace cs \<noteq> []" using l by (auto simp: dropWhile_eq_Nil_conv)
    then have "\<not> isspace (last (dropWhile isspace cs))" using l by (simp add: last_dropWhile)
    then show ?thesis using True d "2.IH"(1) by simp
  qed
qed

lemma py_strip_ends:
  "py_strip s \<noteq> [] \<Longrightarrow> \<not> isspace (hd (py_strip s)) \<and> \<not> isspace (last (py_strip s))"
proof -
  assume ne: "py_strip s \<noteq> []"
  let ?P = "\<lambda>c. c \<in> set whitespace"
  let ?r = "dropWhile ?P (rev (dropWhile ?P s))"
  have s: "py_strip s = rev ?r"
    by (simp add: py_strip_def py_strip_chars_def py_rstrip_def py_lstrip_def)
  have r: "?r \<noteq> []" using ne s by simp
  then have 1: "\<not> ?P (hd ?r)" using hd_dropWhile by blast
  have d: "dropWhile ?P s \<noteq> []"
  proof
    assume "dropWhile ?P s = []"
    then have "?r = []" by (simp only: rev.simps dropWhile.simps)
    with r show False by simp
  qed
  then have 2: "\<not> ?P (hd (dropWhile ?P s))" using hd_dropWhile by blast
  have "last ?r = last (rev (dropWhile ?P s))" using r by (rule last_dropWhile)
  then have 3: "last ?r = hd (dropWhile ?P s)" using d by (simp add: last_rev)
  have "hd (py_strip s) = last ?r" using s r by (simp add: hd_rev)
  moreover have "last (py_strip s) = hd ?r" using s r by (simp add: last_rev)
  ultimately show ?thesis using 1 2 3 by (simp add: isspace_def)
qed

lemma collapsed_cleaned: "whitespace_collapsed (re_sub_spaces (py_strip s))"
proof (cases "py_strip s = []")
  case True
  then show ?thesis by (simp add: whitespace_collapsed_def)
next
  case False
  then have e: "\<not> isspace (hd (py_strip s)) \<and> \<not> isspace (last (py_strip s))"
    by (rule py_strip_ends)
  have "re_sub_spaces (py_strip s) \<noteq> [] \<and> hd (re_sub_spaces (py_strip s)) = hd (py_strip s)"
    using False e by (simp add: re_sub_spaces_hd)
  moreover have "\<not> isspace (last (re_sub_spaces (py_strip s)))"
    using False e re_sub_spaces_last by blast
  ultimately show ?thesis
    using e re_sub_spaces_only_spaces [of "py_strip s"] re_sub_spaces_single_spaced [of "py_strip s"]
    by (simp add: whitespace_collapsed_def)
qed

lemma single_spaced_take: "single_spaced s \<Longrightarrow> single_spaced (take n s)"
proof (induction s arbitrary: n rule: single_spaced.induct)
  case 1
  then show ?case by simp
next
  case (2 c)
  then show ?case by (cases n) simp_all
next
  case (3 c d cs)
  show ?case
  proof (cases n)
    case 0
    then show ?thesis by simp
  next
    case (Suc m)
    have "single_spaced (take m (d # cs))" using 3 by simp
    then show ?thesis using Suc "3.prems" by (cases m) simp_all
  qed
qed

lemma single_spaced_append_dots: "single_spaced s \<Longrightarrow> single_spaced (s @ ''...'')"
proof (induction s rule: single_spaced.induct)
  case 1
  show ?case by (simp add: not_isspace_dot)
next
  case (2 c)
  show ?case by (simp add: not_isspace_dot)
next
  case (3 c d cs)
  then show ?case by simp
qed

lemma collapsed_truncated:
  assumes "whitespace_collapsed s"
  shows "whitespace_collapsed (take n s @ ''...'')"
proof -
  have a: "list_all (\<lambda>c. \<not> isspace c \<or> c = CHR '' '') (take n s @ ''...'')"
    using assms by (auto simp: whitespace_collapsed_def list_all_iff not_isspace_dot dest: in_set_takeD)
  have b: "single_spaced (take n s @ ''...'')"
    using assms by (simp add: whitespace_collapsed_def single_spaced_take single_spaced_append_dots)
  have c: "\<not> isspace (hd (take n s @ ''...''))"
  proof (cases "take n s = []")
    case True
    then show ?thesis by (auto simp: not_isspace_dot)
  next
    case False
    then have "s \<noteq> []" and "n \<noteq> 0" by auto
    then have "hd (take n s @ ''...'') = hd s" by (cases s; cases n) simp_all
    then show ?thesis using assms \<open>s \<noteq> []\<close> by (simp add: whitespace_collapsed_def)
  qed
  have d: "\<not> isspace (last (take n s @ ''...''))" by (simp add: not_isspace_dot)
  show ?thesis using a b c d by (simp add: whitespace_collapsed_def)
qed

lemma clean_text_collapsed: "whitespace_collapsed (clean_text t n)"
  unfolding clean_text_def Let_def
  using collapsed_cleaned [of t] collapsed_truncated [of "re_sub_spaces (py_strip t)" n]
  by (simp add: whitespace_collapsed_def)

lemma clean_text_length: "length (clean_text t n) \<le> n + 3"
  by (simp add: clean_text_def Let_def)

lemma clean_text_eq:
  "clean_text t n = (if length (re_sub_spaces (py_strip t)) \<le> n then re_sub_spaces (py_strip t)
                     else take n (re_sub_spaces (py_strip t)) @ ''...'')"
  by (auto simp: clean_text_def Let_def py_strip_def py_strip_chars_def py_rstrip_def py_lstrip_def)

lemma no_title_collapsed: "whitespace_collapsed ''No Title Found''"
  by (simp add: whitespace_collapsed_def isspace_def whitespace_def)


text \<open>
  C7. For every HTML page crawled with success, the title of the result is
  whitespace-collapsed and at most 203 characters long. When the parser finds no
  \<^verbatim>\<open>title\<close> tag it is \<^verbatim>\<open>No Title Found\<close>. When it finds one, the title is the collapsed text
  of the tag if that has at most 200 characters, and otherwise the first 200 characters
  of the collapsed text followed by three dots.
\<close>

theorem html_title:
  assumes "session_get net u = Inr response"
    and "py_in ''text/html'' (py_lower (headers_get_content_type response []))"
    and "status (fst (crawl_url config net cache u d)) = ''success''"
  shows "whitespace_collapsed (title (fst (crawl_url config net cache u d)))
    \<and> length (title (fst (crawl_url config net cache u d))) \<le> 203
    \<and> (soup_title response = Inr None \<longrightarrow>
          title (fst (crawl_url config net cache u d)) = ''No Title Found'')
    \<and> (\<forall>text. soup_title response = Inr (Some text) \<longrightarrow>
          title (fst (crawl_url config net cache u d))
            = (if length (re_sub_spaces (py_strip text)) \<le> 200 then re_sub_spaces (py_strip text)
               else take 200 (re_sub_spaces (py_strip text)) @ ''...''))"
proof -
  let ?r = "fst (crawl_url config net cache u d)"
  have t: "(soup_title response = Inr None \<and> title ?r = ''No Title Found'')
     \<or> (\<exists>text. soup_title response = Inr (Some text) \<and> title ?r = clean_text text 200)"
    using assms unfolding crawl_url_def Let_def
    by (auto simp: status_except_clauses_not_success
        split: prod.splits sum.splits option.splits if_splits)
  show ?thesis
    using t clean_text_collapsed clean_text_length [of _ 200] no_title_collapsed
    by (auto simp: clean_text_eq)
qed

theorem html_title_witness:
  "session_get net_c ''http://c.test/'' = Inr page_c
   \<and> py_in ''text/html'' (py_lower (headers_get_content_type page_c []))
   \<and> status (fst (crawl_url default_config net_c Map.empty ''http://c.test/'' 0)) = ''success''
   \<and> whitespace_collapsed (title (fst (crawl_url default_config net_c Map.empty ''http://c.test/'' 0)))
   \<and> length (title (fst (crawl_url default_config net_c Map.empty ''http://c.test/'' 0))) \<le> 203
   \<and> title (fst (crawl_url default_config net_c Map.empty ''http://c.test/'' 0)) = ''C''"
proof -
  have 1: "session_get net_c ''http://c.test/'' = Inr page_c"
    by (simp add: net_c_def)
  have 2: "py_in ''text/html'' (py_lower (headers_get_content_type page_c []))"
    by code_simp
  have 3: "status (fst (crawl_url default_config net_c Map.empty ''http://c.test/'' 0)) = ''success''"
    by code_simp
  have 4: "soup_title page_c = Inr (Some ''C'')"
    by (simp add: page_c_def)
  have 5: "re_sub_spaces (py_strip ''C'') = ''C''"
    by code_simp
  note t = html_title [OF 1 2 3]
  have a: "whitespace_collapsed
      (title (fst (crawl_url default_config net_c Map.empty ''http://c.test/'' 0)))"
    using t by blast
  have b: "length (title (fst (crawl_url default_config net_c Map.empty ''http://c.test/'' 0)))
      \<le> 203"
    using t by blast
  have "title (fst (crawl_url default_config net_c Map.empty ''http://c.test/'' 0))
      = (if length (re_sub_spaces (py_strip ''C'')) \<le> 200 then re_sub_spaces (py_strip ''C'')
         else take 200 (re_sub_spaces (py_strip ''C'')) @ ''...'')"
    using t 4 by blast
  then have c: "title (fst (crawl_url default_config net_c Map.empty ''http://c.test/'' 0)) = ''C''"
    by (simp add: 5)
  show ?thesis
    using 1 2 3 a b c by blast
qed

theorem long_title_counterexample:
  "status (fst (crawl_url default_config net_long_title Map.empty ''http://a.test/'' 0)) = ''success''
   \<and> length (title (fst (crawl_url default_config net_long_title Map.empty ''http://a.test/'' 0)))
       = 203"
  by code_simp

section \<open>The robots check under a blank user agent\<close>

lemma py_split_whitespace_only:
  assumes "\<forall>c \<in> set s. isspace c"
  shows "py_split s = []"
proof -
  have d: "dropWhile isspace s = []" using assms by simp
  show ?thesis by (subst py_split.simps) (simp add: d)
qed

text \<open>
  C10. When the configured user agent holds no character that is not whitespace,
  \<open>is_robots_allowed\<close> answers \<^verbatim>\<open>True\<close> for every URL, whatever the cache holds for its
  origin: \<^verbatim>\<open>user_agent.split()\<close> is empty, taking its first element raises, and the handler
  of the method answers \<^verbatim>\<open>True\<close>.
\<close>

theorem robots_allowed_blank_user_agent:
  assumes "\<forall>c \<in> set (user_agent config). isspace c"
  shows "fst (is_robots_allowed config net cache u) = True"
proof -
  have "py_split (user_agent config) = []"
    using assms by (rule py_split_whitespace_only)
  then show ?thesis
    unfolding is_robots_allowed_def Let_def
    by (simp split: sum.splits option.splits prod.splits)
qed

theorem robots_allowed_blank_user_agent_witness:
  "list_all isspace (user_agent (default_config\<lparr>user_agent := ''   ''\<rparr>))
   \<and> fst (is_robots_allowed default_config net_down
        [''http://b.test'' \<mapsto> Some deny_all] ''http://b.test/private'') = False
   \<and> fst (is_robots_allowed (default_config\<lparr>user_agent := ''   ''\<rparr>) net_down
        [''http://b.test'' \<mapsto> Some deny_all] ''http://b.test/private'') = True"
proof -
  have h: "\<forall>c \<in> set (user_agent (default_config\<lparr>user_agent := ''   ''\<rparr>)). isspace c"
    by (simp add: isspace_def whitespace_def)
  have d: "fst (is_robots_allowed default_config net_down
        [''http://b.test'' \<mapsto> Some deny_all] ''http://b.test/private'') = False"
    by code_simp
  show ?thesis
    using h d robots_allowed_blank_user_agent [OF h, of net_down
        "[''http://b.test'' \<mapsto> Some deny_all]" "''http://b.test/private''"]
    by (simp add: list_all_iff)
qed

end
